theory Spec2Isabelle
  imports Main "HOL-Library.Word"
begin

section \<open>The lending ledger: contract ZKLending\<close>

text \<open>
  The Solidity contract \<^verbatim>\<open>ZKLending\<close> (pragma \<^verbatim>\<open>^0.8.19\<close>) is embedded function by
  function. Its integers are machine words: \<^verbatim>\<open>uint256\<close> and \<^verbatim>\<open>int256\<close> are 256-bit words
  (the second read in two's complement with \<open>sint\<close>), \<^verbatim>\<open>uint8\<close> is an 8-bit word and an
  \<^verbatim>\<open>address\<close> a 160-bit word. Solidity 0.8 checks every \<^verbatim>\<open>+\<close>, \<^verbatim>\<open>-\<close>, \<^verbatim>\<open>*\<close>, \<^verbatim>\<open>**\<close> and \<^verbatim>\<open>/\<close>:
  an overflow is \<^verbatim>\<open>Panic(0x11)\<close>, a division by zero \<^verbatim>\<open>Panic(0x12)\<close>, and a failed
  \<^verbatim>\<open>require\<close> reverts with its message. Each of these is a value \<open>Inl\<close> of the result.
\<close>

type_synonym uint256 = "256 word"
type_synonym int256 = "256 word"
type_synonym uint8 = "8 word"
type_synonym address = "160 word"

datatype failure = Revert string | Panic nat

definition checked_add :: "uint256 \<Rightarrow> uint256 \<Rightarrow> failure + uint256" where
  "checked_add a b = (if unat a + unat b < 2 ^ 256 then Inr (a + b) else Inl (Panic 17))"

definition checked_sub :: "uint256 \<Rightarrow> uint256 \<Rightarrow> failure + uint256" where
  "checked_sub a b = (if b \<le> a then Inr (a - b) else Inl (Panic 17))"

definition checked_mul :: "uint256 \<Rightarrow> uint256 \<Rightarrow> failure + uint256" where
  "checked_mul a b = (if unat a * unat b < 2 ^ 256 then Inr (a * b) else Inl (Panic 17))"

definition checked_div :: "uint256 \<Rightarrow> uint256 \<Rightarrow> failure + uint256" where
  "checked_div a b = (if b = 0 then Inl (Panic 18) else Inr (a div b))"

text \<open>\<^verbatim>\<open>10 ** decimals\<close>: the literal base makes the power a \<^verbatim>\<open>uint256\<close>, checked.\<close>

definition checked_pow10 :: "uint8 \<Rightarrow> failure + uint256" where
  "checked_pow10 d = (if (10::nat) ^ unat d < 2 ^ 256 then Inr (10 ^ unat d) else Inl (Panic 17))"

text \<open>Sequencing of fallible steps: the first failure aborts the call.\<close>

definition and_then :: "failure + 'a \<Rightarrow> ('a \<Rightarrow> failure + 'b) \<Rightarrow> failure + 'b" where
  "and_then r f = (case r of Inl e \<Rightarrow> Inl e | Inr v \<Rightarrow> f v)"

definition require :: "bool \<Rightarrow> string \<Rightarrow> failure + unit" where
  "require c msg = (if c then Inr () else Inl (Revert msg))"

text \<open>
  The storage of the contract. The four contract references (\<^verbatim>\<open>stableToken\<close>,
  \<^verbatim>\<open>collateralToken\<close>, \<^verbatim>\<open>verifier\<close>, \<^verbatim>\<open>priceOracle\<close>) point to code outside the
  contract: the two tokens appear in the calls a function makes, the oracle's answer and
  the verifier are arguments of the functions that consult them.
\<close>

record ledger =
  collateralBalance :: "address \<Rightarrow> uint256"
  borrowBalance :: "address \<Rightarrow> uint256"
  liquidationThreshold :: uint256
  collateralizationRatio :: uint256

definition initial_ledger :: ledger where
  "initial_ledger =
     \<lparr>collateralBalance = (\<lambda>_. 0), borrowBalance = (\<lambda>_. 0),
      liquidationThreshold = 75, collateralizationRatio = 150\<rparr>"

text \<open>The answer of \<^verbatim>\<open>priceOracle.getLatestPrice()\<close>: \<^verbatim>\<open>(int256, uint8)\<close>.\<close>

record oracle_answer =
  price :: int256
  decimals :: uint8

text \<open>
  What a call does besides changing the storage: the calls to the two ERC-20 tokens and
  the events, in program order. \<open>Call_transferFrom t u a ok\<close> is
  \<^verbatim>\<open>t.transferFrom(u, address(this), a)\<close> with the boolean \<open>ok\<close> that the token
  returned, and \<open>Call_transfer t u a\<close> is \<^verbatim>\<open>t.transfer(u, a)\<close>. The boolean a token
  returns is an argument of the function that makes the call; by the interface IERC20 it
  tells whether the tokens were moved. Every function that writes the storage is \<^verbatim>\<open>nonReentrant\<close>, so
  the token cannot change the ledger during the call.
\<close>

datatype token = StableToken | CollateralToken

text \<open>
  A proof in the snarkjs calldata format: \<^verbatim>\<open>uint[2] a\<close>, \<^verbatim>\<open>uint[2][2] b\<close>, \<^verbatim>\<open>uint[2] c\<close>.
\<close>

type_synonym g1_point = "uint256 \<times> uint256"
type_synonym g2_point = "(uint256 \<times> uint256) \<times> (uint256 \<times> uint256)"

datatype effect =
    Call_transferFrom token address uint256 bool
  | Call_transfer token address uint256
  | Emit_Deposit address uint256
  | Emit_Borrow address uint256 g1_point g2_point g1_point
  | Emit_Repay address uint256
  | Emit_Withdraw address uint256

text \<open>
  Tokens that enter the contract (positive) or leave it (negative) through one call; a
  \<^verbatim>\<open>transferFrom\<close> that returned false moved nothing.
\<close>

fun inflow :: "token \<Rightarrow> effect \<Rightarrow> int" where
  "inflow t (Call_transferFrom t' u a ok) = (if t = t' \<and> ok then uint a else 0)"
| "inflow t (Call_transfer t' u a) = (if t = t' then - uint a else 0)"
| "inflow t (Emit_Deposit u a) = 0"
| "inflow t (Emit_Borrow u a pa pb pc) = 0"
| "inflow t (Emit_Repay u a) = 0"
| "inflow t (Emit_Withdraw u a) = 0"

definition net_inflow :: "token \<Rightarrow> effect list \<Rightarrow> int" where
  "net_inflow t fx = sum_list (map (inflow t) fx)"

text \<open>
  A reverted transaction leaves the storage as it was; a successful one installs the new
  storage.
\<close>

definition commit :: "ledger \<Rightarrow> failure + ledger \<times> effect list \<Rightarrow> ledger" where
  "commit s r = (case r of Inl e \<Rightarrow> s | Inr (s', fx) \<Rightarrow> s')"

subsection \<open>repay\<close>

definition repay :: "ledger \<Rightarrow> address \<Rightarrow> uint256 \<Rightarrow> bool \<Rightarrow> failure + ledger \<times> effect list" where
  "repay s sender amount transferFrom_ok =
     and_then (require (amount > 0) ''amount=0'') (\<lambda>_.
     and_then (require transferFrom_ok ''Transfer failed'') (\<lambda>_.
     and_then
       (if amount \<ge> borrowBalance s sender
        then Inr (s\<lparr>borrowBalance := (borrowBalance s)(sender := 0)\<rparr>)
        else and_then (checked_sub (borrowBalance s sender) amount) (\<lambda>d.
             Inr (s\<lparr>borrowBalance := (borrowBalance s)(sender := d)\<rparr>)))
       (\<lambda>s'. Inr (s', [Call_transferFrom StableToken sender amount transferFrom_ok,
                       Emit_Repay sender amount]))))"

subsection \<open>The view functions that consult the oracle\<close>

definition getMaxBorrowable :: "ledger \<Rightarrow> oracle_answer \<Rightarrow> address \<Rightarrow> failure + uint256" where
  "getMaxBorrowable s oa user =
     and_then (require (0 <s price oa) ''Invalid price'') (\<lambda>_.
     and_then (checked_mul (collateralBalance s user) (price oa)) (\<lambda>product.
     and_then (checked_pow10 (decimals oa)) (\<lambda>scale.
     and_then (checked_div product scale) (\<lambda>collateralValue.
     and_then (checked_mul collateralValue 100) (\<lambda>scaled.
     checked_div scaled (collateralizationRatio s))))))"

definition isPositionSolvent ::
  "ledger \<Rightarrow> oracle_answer \<Rightarrow> address \<Rightarrow> uint256 \<Rightarrow> failure + bool" where
  "isPositionSolvent s oa user collateralAmount =
     (if borrowBalance s user = 0 then Inr True
      else
        and_then (require (0 <s price oa) ''Invalid price'') (\<lambda>_.
        and_then (checked_mul collateralAmount (price oa)) (\<lambda>product.
        and_then (checked_pow10 (decimals oa)) (\<lambda>scale.
        and_then (checked_div product scale) (\<lambda>collateralValue.
        and_then (checked_mul (borrowBalance s user) (collateralizationRatio s)) (\<lambda>owed.
        and_then (checked_div owed 100) (\<lambda>requiredCollateral.
        Inr (collateralValue \<ge> requiredCollateral))))))))"

definition getPositionHealth :: "ledger \<Rightarrow> oracle_answer \<Rightarrow> address \<Rightarrow> failure + uint256" where
  "getPositionHealth s oa user =
     (if borrowBalance s user = 0 then Inr (- 1)
      else
        and_then (require (0 <s price oa) ''Invalid price'') (\<lambda>_.
        and_then (checked_mul (collateralBalance s user) (price oa)) (\<lambda>product.
        and_then (checked_pow10 (decimals oa)) (\<lambda>scale.
        and_then (checked_div product scale) (\<lambda>collateralValue.
        and_then (checked_mul (borrowBalance s user) (collateralizationRatio s)) (\<lambda>owed.
        and_then (checked_div owed 100) (\<lambda>requiredCollateral.
        and_then (checked_mul collateralValue 100) (\<lambda>scaled.
        checked_div scaled requiredCollateral))))))))"

subsection \<open>withdrawCollateral\<close>

definition withdrawCollateral ::
  "ledger \<Rightarrow> oracle_answer \<Rightarrow> address \<Rightarrow> uint256 \<Rightarrow> bool \<Rightarrow> failure + ledger \<times> effect list" where
  "withdrawCollateral s oa sender amount transfer_ok =
     and_then (require (amount > 0) ''amount=0'') (\<lambda>_.
     and_then (require (amount \<le> collateralBalance s sender) ''Insufficient collateral'') (\<lambda>_.
     and_then (checked_sub (collateralBalance s sender) amount) (\<lambda>remainingCollateral.
     and_then (isPositionSolvent s oa sender remainingCollateral) (\<lambda>solvent.
     and_then (require solvent ''Position would become insolvent'') (\<lambda>_.
     and_then (checked_sub (collateralBalance s sender) amount) (\<lambda>left.
     and_then (require transfer_ok ''Transfer failed'') (\<lambda>_.
     Inr (s\<lparr>collateralBalance := (collateralBalance s)(sender := left)\<rparr>,
          [Call_transfer CollateralToken sender amount, Emit_Withdraw sender amount]))))))))"

subsection \<open>borrow and the verifier\<close>

text \<open>
  The contract behind \<^verbatim>\<open>ISnarkJSVerifier\<close> (the file \<^verbatim>\<open>Verifier.sol\<close> that snarkjs
  exports) is an argument: a function from a proof and its public signals
  \<^verbatim>\<open>uint[] input\<close> to the boolean that \<^verbatim>\<open>verifyProof\<close> returns. \<^verbatim>\<open>uint256(uint160(u))\<close>
  extends an address with zeros. In the comparison
  \<^verbatim>\<open>borrowBalance[msg.sender] + amount <= getMaxBorrowable(msg.sender)\<close> the compiled
  contract evaluates the right operand first.
\<close>

type_synonym snark_verifier = "g1_point \<Rightarrow> g2_point \<Rightarrow> g1_point \<Rightarrow> uint256 list \<Rightarrow> bool"

definition address_to_uint256 :: "address \<Rightarrow> uint256" where
  "address_to_uint256 u = ucast u"

definition borrow ::
  "ledger \<Rightarrow> oracle_answer \<Rightarrow> snark_verifier \<Rightarrow> address \<Rightarrow> uint256 \<Rightarrow>
   g1_point \<Rightarrow> g2_point \<Rightarrow> g1_point \<Rightarrow> uint256 list \<Rightarrow> bool \<Rightarrow> failure + ledger \<times> effect list" where
  "borrow s oa verifier sender amount a b c publicSignals transfer_ok =
     and_then (require (amount > 0) ''amount=0'') (\<lambda>_.
     and_then (getMaxBorrowable s oa sender) (\<lambda>limit.
     and_then (checked_add (borrowBalance s sender) amount) (\<lambda>wanted.
     and_then (require (wanted \<le> limit) ''Exceeds max borrowable'') (\<lambda>_.
     and_then (require (verifier a b c publicSignals) ''Invalid ZK proof'') (\<lambda>_.
     and_then (require (length publicSignals \<ge> 2) ''Invalid public signals'') (\<lambda>_.
     and_then (require (publicSignals ! 0 = address_to_uint256 sender) ''User address mismatch'') (\<lambda>_.
     and_then (require (publicSignals ! 1 = amount) ''Borrow amount mismatch'') (\<lambda>_.
     and_then (checked_add (borrowBalance s sender) amount) (\<lambda>debt.
     and_then (require transfer_ok ''Transfer failed'') (\<lambda>_.
     Inr (s\<lparr>borrowBalance := (borrowBalance s)(sender := debt)\<rparr>,
          [Call_transfer StableToken sender amount, Emit_Borrow sender amount a b c])))))))))))"

text \<open>Contract VerifierAdapter.\<close>

definition verifyProof ::
  "snark_verifier \<Rightarrow> g1_point \<Rightarrow> g2_point \<Rightarrow> g1_point \<Rightarrow> uint256 list \<Rightarrow> bool" where
  "verifyProof verifier a b c input = verifier a b c input"

definition verifyProofWithValidation ::
  "snark_verifier \<Rightarrow> g1_point \<Rightarrow> g2_point \<Rightarrow> g1_point \<Rightarrow> uint256 list \<Rightarrow>
   address \<Rightarrow> uint256 \<Rightarrow> bool" where
  "verifyProofWithValidation verifier a b c input expectedUser expectedAmount =
     (let proofValid = verifier a b c input in
      if \<not> proofValid then False
      else if length input < 2 then False
      else if input ! 0 \<noteq> address_to_uint256 expectedUser then False
      else if input ! 1 \<noteq> expectedAmount then False
      else True)"

subsection \<open>Sample states\<close>

definition sample_position :: ledger where
  "sample_position =
     initial_ledger\<lparr>collateralBalance := (\<lambda>_. 0)(1 := 300, 2 := 300),
                    borrowBalance := (\<lambda>_. 0)(1 := 100000)\<rparr>"

definition sample_oracle :: oracle_answer where
  "sample_oracle = \<lparr>price = 2000000000000000000000, decimals = 18\<rparr>"

text \<open>
  Modelled from the spec: the Groth16 verifier contract \<^verbatim>\<open>Verifier.sol\<close>. The file is
  exported by snarkjs from the proving key and is not among the sources; only its
  interface \<^verbatim>\<open>ISnarkJSVerifier\<close> and its callers are. The specification (sections 3 and
  4.5) makes \<^verbatim>\<open>verify\<close> a pure function of the proof and the public inputs, and a proof
  "bound to exactly the public inputs it was generated against: changing any public
  input invalidates verification even though the proof bytes are unchanged". So the
  keys determine, for each triple of proof elements, the public inputs it was generated
  against, if it is a proof at all (\<open>issued\<close>), and verification accepts a proof with
  exactly those inputs.
\<close>

type_synonym issuance = "g1_point \<times> g2_point \<times> g1_point \<Rightarrow> uint256 list option"

definition groth16_verify :: "issuance \<Rightarrow> snark_verifier" where
  "groth16_verify issued a b c input \<longleftrightarrow> issued (a, b, c) = Some input"

definition sample_issued :: issuance where
  "sample_issued =
     (\<lambda>_. None)(((7, 8), ((1, 2), (3, 4)), (5, 6)) := Some [1, 50, 600000, 400000, 1])"

section \<open>The circuit: template CollateralCheck\<close>

text \<open>
  The circuit is a circom template and reaches the proof pipeline through two programs
  outside the repository: the compiler \<^verbatim>\<open>circom\<close>, which
  \<^verbatim>\<open>scripts/compile-circuit.js\<close> runs on the file to obtain the constraint system and
  the witness generator, and \<^verbatim>\<open>snarkjs\<close>, which proves and verifies. The template is
  therefore embedded as the text it is: its statements, with the line of the source each
  one stands on, and the rules by which the compiler takes or refuses them.
\<close>

datatype signal =
    userCollateralAmount | collateralPrice | userAddress | borrowAmount
  | collateralizationRatio_in
  | userAddressHash | borrowAmountHash | collateralValue | maxBorrowable | canBorrow
  | collateralValueCalc | maxBorrowableCalc | borrowCheck

datatype expr =
    Sig signal
  | Num nat
  | Mul expr expr
  | Div expr expr
  | LessEq expr expr
  | Ternary expr expr expr

text \<open>
  \<open>PrivateInput\<close> is \<^verbatim>\<open>signal private input\<close>, \<open>Input\<close> is \<^verbatim>\<open>signal input\<close>, \<open>Output\<close> is
  \<^verbatim>\<open>signal output\<close> and \<open>Intermediate\<close> is \<^verbatim>\<open>signal\<close>. \<open>ConstrainAssign x e\<close> is
  \<^verbatim>\<open>x <== e;\<close> and \<open>Bare e\<close> is an expression followed by a semicolon.
\<close>

datatype kind = PrivateInput | Input | Output | Intermediate

datatype statement =
    Declare kind signal
  | ConstrainAssign signal expr
  | Bare expr

type_synonym template = "(nat \<times> statement) list"

definition CollateralCheck :: template where
  "CollateralCheck =
     [(75, Declare PrivateInput userCollateralAmount),
      (76, Declare PrivateInput collateralPrice),
      (77, Declare PrivateInput userAddress),
      (78, Declare PrivateInput borrowAmount),
      (79, Declare PrivateInput collateralizationRatio_in),
      (82, Declare Output userAddressHash),
      (83, Declare Output borrowAmountHash),
      (84, Declare Output collateralValue),
      (85, Declare Output maxBorrowable),
      (86, Declare Output canBorrow),
      (89, Declare Intermediate collateralValueCalc),
      (90, Declare Intermediate maxBorrowableCalc),
      (91, Declare Intermediate borrowCheck),
      (94, ConstrainAssign collateralValueCalc
             (Mul (Sig userCollateralAmount) (Sig collateralPrice))),
      (95, ConstrainAssign collateralValue (Sig collateralValueCalc)),
      (99, ConstrainAssign maxBorrowableCalc
             (Div (Mul (Sig collateralValue) (Num 100)) (Sig collateralizationRatio_in))),
      (100, ConstrainAssign maxBorrowable (Sig maxBorrowableCalc)),
      (103, ConstrainAssign borrowCheck
              (Ternary (LessEq (Sig borrowAmount) (Sig maxBorrowable)) (Num 1) (Num 0))),
      (104, ConstrainAssign canBorrow (Sig borrowCheck)),
      (108, ConstrainAssign userAddressHash (Sig userAddress)),
      (111, ConstrainAssign borrowAmountHash (Sig borrowAmount)),
      (114, Bare (LessEq (Mul (Sig borrowAmount) (Sig collateralizationRatio_in))
                         (Mul (Sig collateralValue) (Num 100))))]"

subsection \<open>The compiler\<close>

text \<open>
  The file opens with \<^verbatim>\<open>pragma circom 2.0.0\<close>, so it is read by the compiler of circom
  2. Of the compiler's rules the model has the three that the statements of this
  language can break; it accepts everything else.
  \<^item> circom 2 has no keyword \<^verbatim>\<open>private\<close>: every input of a template is private unless the
    main component lists it as public, and \<^verbatim>\<open>signal private input\<close> (the form of
    circom 1) does not parse.
  \<^item> A statement is a declaration, an assignment or a constraint; an expression
    followed by a semicolon does not parse.
  \<^item> A constraint must be quadratic: of the form \<open>A * B = C\<close> with \<open>A\<close>, \<open>B\<close>, \<open>C\<close> affine
    in the signals, the only equations a rank-1 constraint system holds. \<open>degree\<close> is
    the degree of an expression in the signals where it has one of at most 2: a product
    adds the degrees, a quotient is admitted with a constant divisor only, a comparison
    or a choice among signals has none. \<^verbatim>\<open>x <== e\<close> with \<open>e\<close> of no such degree is
    refused ("Non quadratic constraints are not allowed").
\<close>

fun degree :: "expr \<Rightarrow> nat option" where
  "degree (Sig s) = Some 1"
| "degree (Num n) = Some 0"
| "degree (Mul x y) =
     (case (degree x, degree y) of
        (Some m, Some n) \<Rightarrow> if m + n \<le> 2 then Some (m + n) else None
      | _ \<Rightarrow> None)"
| "degree (Div x y) =
     (case (degree x, degree y) of
        (Some m, Some n) \<Rightarrow> if n = 0 then Some m else None
      | _ \<Rightarrow> None)"
| "degree (LessEq x y) =
     (if degree x = Some 0 \<and> degree y = Some 0 then Some 0 else None)"
| "degree (Ternary c x y) =
     (if degree c = Some 0 \<and> degree x = Some 0 \<and> degree y = Some 0 then Some 0 else None)"

text \<open>The rules a template breaks, each with the line of the statement that breaks it.\<close>

datatype diagnostic = PrivateKeyword nat | NotAStatement nat | NonQuadratic nat

fun syntax_errors :: "nat \<times> statement \<Rightarrow> diagnostic list" where
  "syntax_errors (l, Declare PrivateInput s) = [PrivateKeyword l]"
| "syntax_errors (l, Declare k s) = []"
| "syntax_errors (l, ConstrainAssign x e) = []"
| "syntax_errors (l, Bare e) = [NotAStatement l]"

fun constraint_errors :: "nat \<times> statement \<Rightarrow> diagnostic list" where
  "constraint_errors (l, ConstrainAssign x e) =
     (if degree e = None then [NonQuadratic l] else [])"
| "constraint_errors (l, Declare k s) = []"
| "constraint_errors (l, Bare e) = []"

definition diagnostics :: "template \<Rightarrow> diagnostic list" where
  "diagnostics t = concat (map syntax_errors t) @ concat (map constraint_errors t)"

text \<open>The constraint system of a template that compiles: one equation for each \<^verbatim>\<open><==\<close>.\<close>

fun constraint_of :: "nat \<times> statement \<Rightarrow> (signal \<times> expr) list" where
  "constraint_of (l, ConstrainAssign x e) = [(x, e)]"
| "constraint_of (l, Declare k s) = []"
| "constraint_of (l, Bare e) = []"

text \<open>
  The compiler returns the constraint system when the template breaks no rule, and
  nothing (no constraint system, no witness generator) when it breaks one.
\<close>

definition circom :: "template \<Rightarrow> (signal \<times> expr) list option" where
  "circom t = (if diagnostics t = [] then Some (concat (map constraint_of t)) else None)"

subsection \<open>Values of signals\<close>

text \<open>
  A signal holds an element of the scalar field of the curve bn128, circom's default: a
  number below the prime \<open>field_prime\<close>. \<^verbatim>\<open>*\<close> multiplies modulo the prime; \<^verbatim>\<open>/\<close>
  multiplies by the inverse modulo the prime; \<^verbatim>\<open><=\<close> compares the signed readings of
  its operands, where an element above half of the prime reads as negative.
\<close>

definition field_prime :: nat where
  "field_prime = 21888242871839275222246405745257275088548364400416034343698204186575808495617"

definition field_mul :: "nat \<Rightarrow> nat \<Rightarrow> nat" where
  "field_mul x y = (x * y) mod field_prime"

text \<open>
  The inverse by the extended Euclidean algorithm: \<open>inverse_steps\<close> keeps two remainders
  and the two coefficients that express them as multiples of the number to invert.
\<close>

function inverse_steps :: "nat \<Rightarrow> nat \<Rightarrow> int \<Rightarrow> int \<Rightarrow> int" where
  "inverse_steps r0 r1 t0 t1 =
     (if r1 = 0 then t0
      else inverse_steps r1 (r0 mod r1) t1 (t0 - int (r0 div r1) * t1))"
  by pat_completeness auto
termination
  by (relation "measure (\<lambda>(r0, r1, t0, t1). r1)") auto

declare inverse_steps.simps [simp del]

definition field_inv :: "nat \<Rightarrow> nat" where
  "field_inv y = nat (inverse_steps field_prime (y mod field_prime) 0 1 mod int field_prime)"

definition field_div :: "nat \<Rightarrow> nat \<Rightarrow> nat" where
  "field_div x y = field_mul x (field_inv y)"

definition signed_value :: "nat \<Rightarrow> int" where
  "signed_value x = (if field_prime div 2 + 1 \<le> x then int x - int field_prime else int x)"

definition field_le :: "nat \<Rightarrow> nat \<Rightarrow> bool" where
  "field_le x y \<longleftrightarrow> signed_value x \<le> signed_value y"

text \<open>
  An assignment gives every signal its value. The witness generator reduces each number
  of \<^verbatim>\<open>input.json\<close> modulo the prime when it loads the inputs.
\<close>

type_synonym assignment = "signal \<Rightarrow> nat"

fun eval :: "assignment \<Rightarrow> expr \<Rightarrow> nat" where
  "eval w (Sig s) = w s"
| "eval w (Num n) = n mod field_prime"
| "eval w (Mul x y) = field_mul (eval w x) (eval w y)"
| "eval w (Div x y) = field_div (eval w x) (eval w y)"
| "eval w (LessEq x y) = (if field_le (eval w x) (eval w y) then 1 else 0)"
| "eval w (Ternary c x y) = (if eval w c \<noteq> 0 then eval w x else eval w y)"

fun input_of :: "nat \<times> statement \<Rightarrow> signal list" where
  "input_of (l, Declare PrivateInput s) = [s]"
| "input_of (l, Declare Input s) = [s]"
| "input_of (l, Declare k s) = []"
| "input_of (l, ConstrainAssign x e) = []"
| "input_of (l, Bare e) = []"

fun output_of :: "nat \<times> statement \<Rightarrow> signal list" where
  "output_of (l, Declare Output s) = [s]"
| "output_of (l, Declare k s) = []"
| "output_of (l, ConstrainAssign x e) = []"
| "output_of (l, Bare e) = []"

definition load :: "template \<Rightarrow> (signal \<Rightarrow> nat) \<Rightarrow> assignment" where
  "load t input_json =
     (\<lambda>s. if s \<in> set (concat (map input_of t)) then input_json s mod field_prime else 0)"

fun exec :: "assignment \<Rightarrow> nat \<times> statement \<Rightarrow> assignment" where
  "exec w (l, ConstrainAssign x e) = w(x := eval w e)"
| "exec w (l, Declare k s) = w"
| "exec w (l, Bare e) = w"

definition compute_signals :: "template \<Rightarrow> (signal \<Rightarrow> nat) \<Rightarrow> assignment" where
  "compute_signals t input_json = foldl exec (load t input_json) t"

definition satisfies :: "assignment \<Rightarrow> signal \<times> expr \<Rightarrow> bool" where
  "satisfies w c \<longleftrightarrow> w (fst c) = eval w (snd c)"

text \<open>
  The public signals of a proof: the main component lists no public input, so they are
  the outputs of the template in the order of their declaration.
\<close>

definition public_signals :: "template \<Rightarrow> assignment \<Rightarrow> nat list" where
  "public_signals t w = map w (concat (map output_of t))"

subsection \<open>Witness and proof generation\<close>

text \<open>
  The witness generator is a product of the compiler: without it the command that
  \<^verbatim>\<open>generateProof\<close> runs (\<^verbatim>\<open>generate_witness.js\<close> on the compiled circuit) fails, and the
  script stops. With it, the generator computes every signal and stops when a
  constraint is false; the specification calls that failure \<open>UnsatisfiableWitness\<close> and
  the refusal of the compiler \<open>CompileError\<close>.
\<close>

datatype pipeline_failure = CompileError | UnsatisfiableWitness

definition generate_witness ::
  "template \<Rightarrow> (signal \<Rightarrow> nat) \<Rightarrow> pipeline_failure + assignment" where
  "generate_witness t input_json =
     (case circom t of
        None \<Rightarrow> Inl CompileError
      | Some r1cs \<Rightarrow>
          (let w = compute_signals t input_json
           in if list_all (satisfies w) r1cs then Inr w else Inl UnsatisfiableWitness))"

text \<open>
  \<^verbatim>\<open>generateProof\<close> of \<^verbatim>\<open>circuits/generate_proof.js\<close>: generate the witness, prove, and
  return the proof with the public signals. The prover \<^verbatim>\<open>snarkjs.groth16.prove\<close> is an
  argument. (The script also verifies the proof and prints the answer, which does not
  change what it returns.)
\<close>

definition generateProof ::
  "(assignment \<Rightarrow> 'proof) \<Rightarrow> template \<Rightarrow> (signal \<Rightarrow> nat) \<Rightarrow>
   pipeline_failure + 'proof \<times> nat list" where
  "generateProof prove t input_json =
     (case generate_witness t input_json of
        Inl f \<Rightarrow> Inl f
      | Inr w \<Rightarrow> Inr (prove w, public_signals t w))"

subsection \<open>Sample inputs\<close>

text \<open>
  The scenario of the specification: 100 units of collateral at price 2000 and ratio
  150, for a request of \<open>amount\<close> by \<open>user\<close>.
\<close>

definition scenario :: "nat \<Rightarrow> nat \<Rightarrow> signal \<Rightarrow> nat" where
  "scenario user amount =
     (\<lambda>_. 0)(userCollateralAmount := 100, collateralPrice := 2000, userAddress := user,
             borrowAmount := amount, collateralizationRatio_in := 150)"

text \<open>
  An assignment in which the two outputs named as hashes hold the address and the
  amount themselves.
\<close>

definition disclosed :: "nat \<Rightarrow> nat \<Rightarrow> assignment" where
  "disclosed user amount =
     (\<lambda>_. 0)(userAddress := user, borrowAmount := amount,
             userAddressHash := user, borrowAmountHash := amount)"

text \<open>The statements that define a signal, and the signals a template declares.\<close>

fun definition_of :: "signal \<Rightarrow> nat \<times> statement \<Rightarrow> (nat \<times> expr) list" where
  "definition_of s (l, ConstrainAssign x e) = (if x = s then [(l, e)] else [])"
| "definition_of s (l, Declare k x) = []"
| "definition_of s (l, Bare e) = []"

definition definitions_of :: "signal \<Rightarrow> template \<Rightarrow> (nat \<times> expr) list" where
  "definitions_of s t = concat (map (definition_of s) t)"



section \<open>Properties of the ledger\<close>

lemma and_then_Inr:
  "and_then r f = Inr y \<longleftrightarrow> (\<exists>v. r = Inr v \<and> f v = Inr y)"
  by (cases r) (simp_all add: and_then_def)

lemma require_Inr: "require c msg = Inr u \<longleftrightarrow> c"
  by (simp add: require_def)

subsection \<open>Checked arithmetic\<close>

lemma checked_mul_unat:
  "checked_mul x y = Inr v \<Longrightarrow> v = x * y \<and> unat v = unat x * unat y"
  using unat_mult_lem [of x y] by (auto simp: checked_mul_def split: if_splits)

lemma checked_div_unat:
  "checked_div x y = Inr v \<Longrightarrow> v = x div y \<and> unat v = unat x div unat y \<and> y \<noteq> 0"
  by (auto simp: checked_div_def unat_div split: if_splits)

lemma checked_pow10_unat:
  assumes "checked_pow10 d = Inr v"
  shows "v = 10 ^ unat d \<and> unat v = 10 ^ unat d"
proof -
  from assms have lt: "(10::nat) ^ unat d < 2 ^ 256" and v: "v = 10 ^ unat d"
    by (auto simp: checked_pow10_def split: if_splits)
  have "(10::256 word) ^ unat d = word_of_nat (10 ^ unat d)" by simp
  then have "unat ((10::256 word) ^ unat d) = (10 ^ unat d) mod 2 ^ 256"
    by (simp only: unat_of_nat) simp
  with lt v show ?thesis by simp
qed

lemma checked_sub_Inr: "checked_sub x y = Inr v \<longleftrightarrow> y \<le> x \<and> v = x - y"
  by (auto simp: checked_sub_def)

lemmas ledger_eval =
  and_then_def require_def checked_add_def checked_sub_def checked_mul_def checked_div_def
  checked_pow10_def sample_position_def sample_oracle_def initial_ledger_def word_sless_alt

subsection \<open>Withdrawal and solvency\<close>

lemma withdrawCollateral_success:
  assumes "withdrawCollateral s oa sender amount ok = Inr (s', fx)"
  shows "0 < amount" and "amount \<le> collateralBalance s sender"
    and "isPositionSolvent s oa sender (collateralBalance s sender - amount) = Inr True"
    and "s' = s\<lparr>collateralBalance :=
                 (collateralBalance s)(sender := collateralBalance s sender - amount)\<rparr>"
    and "fx = [Call_transfer CollateralToken sender amount, Emit_Withdraw sender amount]"
  using assms
  by (auto simp: withdrawCollateral_def and_then_Inr require_Inr checked_sub_Inr)

lemma isPositionSolvent_frame:
  "isPositionSolvent (s\<lparr>collateralBalance := f\<rparr>) oa user x = isPositionSolvent s oa user x"
  by (simp add: isPositionSolvent_def)

lemma isPositionSolvent_True_debt:
  assumes "isPositionSolvent s oa user x = Inr True" and "borrowBalance s user \<noteq> 0"
  shows "(unat (borrowBalance s user) * unat (collateralizationRatio s)) div 100
           \<le> (unat x * unat (price oa)) div 10 ^ unat (decimals oa)"
  using assms
  by (auto simp: isPositionSolvent_def and_then_Inr require_Inr word_le_nat_alt
           dest!: checked_mul_unat checked_div_unat checked_pow10_unat)

lemma sample_withdraw_100:
  "withdrawCollateral sample_position sample_oracle 1 100 True
     = Inr (sample_position\<lparr>collateralBalance := (\<lambda>_. 0)(1 := 200, 2 := 300)\<rparr>,
            [Call_transfer CollateralToken 1 100, Emit_Withdraw 1 100])"
  by (simp add: withdrawCollateral_def isPositionSolvent_def ledger_eval fun_upd_twist)

lemma sample_withdraw_250:
  "withdrawCollateral sample_position sample_oracle 1 250 True
     = Inl (Revert ''Position would become insolvent'')"
  by (simp add: withdrawCollateral_def isPositionSolvent_def ledger_eval)

text \<open>
  C9. Let the caller have a non-zero debt. If \<^verbatim>\<open>withdrawCollateral(amount)\<close> succeeds,
  the debt is as before, the collateral is lower by the amount, and the value of the
  remaining collateral at the oracle's price, \<open>remaining * price / 10 ^ decimals\<close>, is at
  least \<open>borrowBalance * collateralizationRatio / 100\<close> (both divisions round down, as
  in the contract); so \<^verbatim>\<open>isPositionSolvent\<close> holds of the position after the call. If
  the call fails, the transaction is reverted and the storage, with both balances, is as
  before.
\<close>

theorem withdraw_keeps_position_solvent:
  assumes debt: "borrowBalance s sender \<noteq> 0"
  shows "(\<forall>s' fx. withdrawCollateral s oa sender amount ok = Inr (s', fx) \<longrightarrow>
            borrowBalance s' = borrowBalance s
          \<and> collateralBalance s' sender = collateralBalance s sender - amount
          \<and> (unat (borrowBalance s' sender) * unat (collateralizationRatio s')) div 100
               \<le> (unat (collateralBalance s' sender) * unat (price oa))
                    div 10 ^ unat (decimals oa)
          \<and> isPositionSolvent s' oa sender (collateralBalance s' sender) = Inr True)
       \<and> (\<forall>e. withdrawCollateral s oa sender amount ok = Inl e \<longrightarrow>
            commit s (withdrawCollateral s oa sender amount ok) = s)"
proof (intro conjI allI impI)
  fix s' fx
  assume run: "withdrawCollateral s oa sender amount ok = Inr (s', fx)"
  note w = withdrawCollateral_success [OF run]
  show bb: "borrowBalance s' = borrowBalance s" by (simp add: w(4))
  show "collateralBalance s' sender = collateralBalance s sender - amount"
    by (simp add: w(4))
  have solv: "isPositionSolvent s' oa sender (collateralBalance s' sender) = Inr True"
    using w(3) by (simp add: w(4) isPositionSolvent_frame)
  then show "isPositionSolvent s' oa sender (collateralBalance s' sender) = Inr True" .
  from debt bb have "borrowBalance s' sender \<noteq> 0" by simp
  from isPositionSolvent_True_debt [OF solv this]
  show "(unat (borrowBalance s' sender) * unat (collateralizationRatio s')) div 100
          \<le> (unat (collateralBalance s' sender) * unat (price oa))
               div 10 ^ unat (decimals oa)" .
next
  fix e
  assume "withdrawCollateral s oa sender amount ok = Inl e"
  then show "commit s (withdrawCollateral s oa sender amount ok) = s"
    by (simp add: commit_def)
qed

theorem withdraw_keeps_position_solvent_witness:
  "borrowBalance sample_position 1 \<noteq> 0
   \<and> withdrawCollateral sample_position sample_oracle 1 100 True
       = Inr (sample_position\<lparr>collateralBalance := (\<lambda>_. 0)(1 := 200, 2 := 300)\<rparr>,
              [Call_transfer CollateralToken 1 100, Emit_Withdraw 1 100])
   \<and> isPositionSolvent (sample_position\<lparr>collateralBalance := (\<lambda>_. 0)(1 := 200, 2 := 300)\<rparr>)
         sample_oracle 1 200 = Inr True
   \<and> withdrawCollateral sample_position sample_oracle 1 250 True
       = Inl (Revert ''Position would become insolvent'')
   \<and> commit sample_position (withdrawCollateral sample_position sample_oracle 1 250 True)
       = sample_position"
proof -
  have debt: "borrowBalance sample_position 1 \<noteq> 0"
    by (simp add: sample_position_def)
  from withdraw_keeps_position_solvent [OF debt, of sample_oracle 100 True]
       withdraw_keeps_position_solvent [OF debt, of sample_oracle 250 True]
       debt sample_withdraw_100 sample_withdraw_250
  show ?thesis by simp
qed

subsection \<open>The price guard\<close>

lemma price_guard: "sint p \<le> 0 \<Longrightarrow> require (0 <s p) msg = Inl (Revert msg)"
  by (simp add: require_def word_sless_alt)

text \<open>
  C8, as the contract has it. When the oracle's price is not positive,
  \<^verbatim>\<open>getMaxBorrowable\<close> fails with "Invalid price" for every user, and
  \<^verbatim>\<open>isPositionSolvent\<close> and \<^verbatim>\<open>getPositionHealth\<close> fail with "Invalid price" for every user
  whose debt is not zero. For a user without debt the two functions return before they
  ask the oracle: \<^verbatim>\<open>true\<close> and \<^verbatim>\<open>type(uint256).max\<close>. No function computes with the
  price.
\<close>

theorem nonpositive_price_rejected:
  assumes "sint (price oa) \<le> 0"
  shows "getMaxBorrowable s oa user = Inl (Revert ''Invalid price'')
       \<and> (borrowBalance s user \<noteq> 0 \<longrightarrow>
            isPositionSolvent s oa user collateralAmount = Inl (Revert ''Invalid price'')
          \<and> getPositionHealth s oa user = Inl (Revert ''Invalid price''))
       \<and> (borrowBalance s user = 0 \<longrightarrow>
            isPositionSolvent s oa user collateralAmount = Inr True
          \<and> getPositionHealth s oa user = Inr (- 1))"
  using assms
  by (simp add: getMaxBorrowable_def isPositionSolvent_def getPositionHealth_def
        price_guard and_then_def)

theorem nonpositive_price_rejected_witness:
  "sint (price \<lparr>price = - 5, decimals = 18\<rparr>) \<le> 0
   \<and> getMaxBorrowable sample_position \<lparr>price = - 5, decimals = 18\<rparr> 1
       = Inl (Revert ''Invalid price'')
   \<and> borrowBalance sample_position 1 \<noteq> 0
   \<and> isPositionSolvent sample_position \<lparr>price = - 5, decimals = 18\<rparr> 1 300
       = Inl (Revert ''Invalid price'')
   \<and> getPositionHealth sample_position \<lparr>price = - 5, decimals = 18\<rparr> 1
       = Inl (Revert ''Invalid price'')
   \<and> borrowBalance sample_position 2 = 0
   \<and> isPositionSolvent sample_position \<lparr>price = - 5, decimals = 18\<rparr> 2 300 = Inr True
   \<and> getPositionHealth sample_position \<lparr>price = - 5, decimals = 18\<rparr> 2 = Inr (- 1)"
proof -
  have neg: "sint (price \<lparr>price = - 5, decimals = 18\<rparr>) \<le> 0" by simp
  have d1: "borrowBalance sample_position 1 \<noteq> 0"
    and d2: "borrowBalance sample_position 2 = 0"
    by (simp_all add: sample_position_def)
  from nonpositive_price_rejected [OF neg, of sample_position 1 300]
       nonpositive_price_rejected [OF neg, of sample_position 2 300] neg d1 d2
  show ?thesis by simp
qed

text \<open>
  The claim as it was stated, that each of the three functions fails, does not hold of a
  user without debt: with the price 0 the solvency check answers \<^verbatim>\<open>true\<close> and the health
  is \<^verbatim>\<open>type(uint256).max\<close>.
\<close>

theorem zero_debt_ignores_price_counterexample:
  "sint (price \<lparr>price = 0, decimals = 18\<rparr>) \<le> 0
   \<and> isPositionSolvent initial_ledger \<lparr>price = 0, decimals = 18\<rparr> 1 100 = Inr True
   \<and> getPositionHealth initial_ledger \<lparr>price = 0, decimals = 18\<rparr> 1 = Inr (- 1)"
  by (simp add: isPositionSolvent_def getPositionHealth_def initial_ledger_def)

subsection \<open>Repayment\<close>

lemma repay_run:
  assumes "0 < amount" and "ok"
  shows "repay s sender amount ok =
     Inr (s\<lparr>borrowBalance := (borrowBalance s)
            (sender := if amount < borrowBalance s sender
                       then borrowBalance s sender - amount else 0)\<rparr>,
          [Call_transferFrom StableToken sender amount True, Emit_Repay sender amount])"
  using assms
  by (auto simp: repay_def and_then_def require_def checked_sub_def not_le)

lemma repay_zero: "repay s sender 0 ok = Inl (Revert ''amount=0'')"
  by (simp add: repay_def and_then_def require_def)

lemma repay_failed_transfer:
  "0 < amount \<Longrightarrow> repay s sender amount False = Inl (Revert ''Transfer failed'')"
  by (simp add: repay_def and_then_def require_def)

lemma repay_success:
  assumes "repay s sender amount ok = Inr (s', fx)"
  shows "0 < amount" and "ok"
    and "s' = s\<lparr>borrowBalance := (borrowBalance s)
            (sender := if amount < borrowBalance s sender
                       then borrowBalance s sender - amount else 0)\<rparr>"
    and "fx = [Call_transferFrom StableToken sender amount True, Emit_Repay sender amount]"
proof -
  show pos: "0 < amount"
    using assms by (cases "amount = 0") (simp_all add: repay_zero word_greater_zero_iff)
  show ok: "ok"
    using assms pos by (cases ok) (simp_all add: repay_failed_transfer)
  from assms repay_run [OF pos ok, of s sender]
  show "s' = s\<lparr>borrowBalance := (borrowBalance s)
            (sender := if amount < borrowBalance s sender
                       then borrowBalance s sender - amount else 0)\<rparr>"
    and "fx = [Call_transferFrom StableToken sender amount True, Emit_Repay sender amount]"
    by simp_all
qed

lemma clamped_difference:
  "unat (if amount < debt then debt - amount else (0::uint256)) = unat debt - unat amount"
proof (cases "amount < debt")
  case True
  then have "amount \<le> debt" by simp
  then show ?thesis using True by (simp add: unat_sub)
next
  case False
  then have "unat debt \<le> unat amount"
    by (simp add: not_less word_le_nat_alt)
  then show ?thesis using False by simp
qed

text \<open>
  C10. A call \<^verbatim>\<open>repay(amount)\<close> succeeds exactly when the amount is positive and
  \<^verbatim>\<open>stableToken.transferFrom(msg.sender, address(this), amount)\<close> returned true; with the
  amount 0 it reverts with "amount=0", and when the token returned false it reverts with
  "Transfer failed" and the storage stays as it was. When it succeeds, the new debt of
  the caller is the old debt minus the amount if the amount is smaller than the old
  debt and 0 otherwise, which is the truncated difference of the two numbers (no
  underflow); the debts of the other users and all collateral are unchanged. The only
  token call is that \<^verbatim>\<open>transferFrom\<close>, of the whole amount and answered with true: the
  contract has taken in exactly \<open>amount\<close> and sends nothing back, also when the amount
  exceeds the debt.
\<close>

theorem repay_clamps_and_keeps_overpayment:
  "(\<forall>s' fx. repay s sender amount ok = Inr (s', fx) \<longrightarrow>
       0 < amount \<and> ok
     \<and> borrowBalance s' sender =
         (if amount < borrowBalance s sender then borrowBalance s sender - amount else 0)
     \<and> unat (borrowBalance s' sender) = unat (borrowBalance s sender) - unat amount
     \<and> (\<forall>u. u \<noteq> sender \<longrightarrow> borrowBalance s' u = borrowBalance s u)
     \<and> collateralBalance s' = collateralBalance s
     \<and> fx = [Call_transferFrom StableToken sender amount True, Emit_Repay sender amount]
     \<and> net_inflow StableToken fx = uint amount)
   \<and> (0 < amount \<and> ok \<longrightarrow> (\<exists>s' fx. repay s sender amount ok = Inr (s', fx)))
   \<and> (amount = 0 \<longrightarrow> repay s sender amount ok = Inl (Revert ''amount=0''))
   \<and> (0 < amount \<and> \<not> ok \<longrightarrow>
         repay s sender amount ok = Inl (Revert ''Transfer failed'')
       \<and> commit s (repay s sender amount ok) = s)"
proof (intro conjI allI impI)
  fix s' fx
  assume run: "repay s sender amount ok = Inr (s', fx)"
  note r = repay_success [OF run]
  show "0 < amount" by (rule r(1))
  show "ok" by (rule r(2))
  show bal: "borrowBalance s' sender =
      (if amount < borrowBalance s sender then borrowBalance s sender - amount else 0)"
    by (simp add: r(3))
  show "unat (borrowBalance s' sender) = unat (borrowBalance s sender) - unat amount"
    unfolding bal by (rule clamped_difference)
  show "collateralBalance s' = collateralBalance s" by (simp add: r(3))
  show "fx = [Call_transferFrom StableToken sender amount True, Emit_Repay sender amount]"
    by (rule r(4))
  show "net_inflow StableToken fx = uint amount"
    by (simp add: r(4) net_inflow_def)
  fix u
  assume "u \<noteq> sender"
  then show "borrowBalance s' u = borrowBalance s u" by (simp add: r(3))
next
  assume "0 < amount \<and> ok"
  then show "\<exists>s' fx. repay s sender amount ok = Inr (s', fx)"
    using repay_run [of amount ok s sender] by blast
next
  assume "amount = 0"
  then show "repay s sender amount ok = Inl (Revert ''amount=0'')"
    by (simp add: repay_zero)
next
  assume a: "0 < amount \<and> \<not> ok"
  then show f: "repay s sender amount ok = Inl (Revert ''Transfer failed'')"
    using repay_failed_transfer [of amount s sender] by simp
  show "commit s (repay s sender amount ok) = s"
    by (simp add: f commit_def)
qed

lemma sample_partial_repayment:
  "repay sample_position 1 30000 True
     = Inr (sample_position\<lparr>borrowBalance := (\<lambda>_. 0)(1 := 70000)\<rparr>,
            [Call_transferFrom StableToken 1 30000 True, Emit_Repay 1 30000])"
  by (simp add: repay_def ledger_eval)

lemma sample_overpayment:
  "repay sample_position 1 250000 True
     = Inr (sample_position\<lparr>borrowBalance := (\<lambda>_. 0)(1 := 0)\<rparr>,
            [Call_transferFrom StableToken 1 250000 True, Emit_Repay 1 250000])"
  by (simp add: repay_def ledger_eval)

theorem repay_clamps_and_keeps_overpayment_witness:
  "repay sample_position 1 30000 True
     = Inr (sample_position\<lparr>borrowBalance := (\<lambda>_. 0)(1 := 70000)\<rparr>,
            [Call_transferFrom StableToken 1 30000 True, Emit_Repay 1 30000])
   \<and> net_inflow StableToken [Call_transferFrom StableToken 1 30000 True, Emit_Repay 1 30000]
       = 30000
   \<and> repay sample_position 1 250000 True
     = Inr (sample_position\<lparr>borrowBalance := (\<lambda>_. 0)(1 := 0)\<rparr>,
            [Call_transferFrom StableToken 1 250000 True, Emit_Repay 1 250000])
   \<and> net_inflow StableToken [Call_transferFrom StableToken 1 250000 True, Emit_Repay 1 250000]
       = 250000
   \<and> repay sample_position 1 0 True = Inl (Revert ''amount=0'')
   \<and> repay sample_position 1 30000 False = Inl (Revert ''Transfer failed'')
   \<and> commit sample_position (repay sample_position 1 30000 False) = sample_position"
proof -
  note partial = repay_clamps_and_keeps_overpayment [of sample_position 1 30000 True]
  note over = repay_clamps_and_keeps_overpayment [of sample_position 1 250000 True]
  note zero = repay_clamps_and_keeps_overpayment [of sample_position 1 0 True]
  note failed = repay_clamps_and_keeps_overpayment [of sample_position 1 30000 False]
  have c2: "net_inflow StableToken
      [Call_transferFrom StableToken 1 30000 True, Emit_Repay 1 30000] = 30000"
    using partial [THEN conjunct1, THEN spec, THEN spec, THEN mp, OF sample_partial_repayment]
    by simp
  have c4: "net_inflow StableToken
      [Call_transferFrom StableToken 1 250000 True, Emit_Repay 1 250000] = 250000"
    using over [THEN conjunct1, THEN spec, THEN spec, THEN mp, OF sample_overpayment]
    by simp
  have c5: "repay sample_position 1 0 True = Inl (Revert ''amount=0'')"
    using zero [THEN conjunct2, THEN conjunct2, THEN conjunct1] by simp
  have "(0::uint256) < 30000 \<and> \<not> False" by simp
  from failed [THEN conjunct2, THEN conjunct2, THEN conjunct2, THEN mp, OF this]
  have c67: "repay sample_position 1 30000 False = Inl (Revert ''Transfer failed'')
      \<and> commit sample_position (repay sample_position 1 30000 False) = sample_position" .
  show ?thesis
    by (intro conjI sample_partial_repayment c2 sample_overpayment c4 c5
          c67 [THEN conjunct1] c67 [THEN conjunct2])
qed

subsection \<open>Binding of a proof to its public inputs, the borrower and the amount\<close>

lemma address_to_uint256_inj: "address_to_uint256 u = address_to_uint256 u' \<Longrightarrow> u = u'"
proof -
  assume "address_to_uint256 u = address_to_uint256 u'"
  then have "(ucast (ucast u :: 256 word) :: 160 word) = ucast (ucast u' :: 256 word)"
    by (simp add: address_to_uint256_def)
  then show "u = u'" by (simp add: ucast_up_ucast_id is_up)
qed

lemma verifyProofWithValidation_iff:
  "verifyProofWithValidation v a b c input u m \<longleftrightarrow>
     v a b c input \<and> 2 \<le> length input \<and> input ! 0 = address_to_uint256 u \<and> input ! 1 = m"
  by (auto simp: verifyProofWithValidation_def Let_def)

lemma borrow_success:
  assumes "borrow s oa v u m a b c input ok = Inr r"
  shows "v a b c input" and "2 \<le> length input"
    and "input ! 0 = address_to_uint256 u" and "input ! 1 = m"
  using assms by (auto simp: borrow_def and_then_Inr require_Inr)

lemma borrow_refused:
  assumes "\<not> v a b c input \<or> input ! 0 \<noteq> address_to_uint256 u \<or> input ! 1 \<noteq> m"
  shows "\<exists>e. borrow s oa v u m a b c input ok = Inl e"
proof (cases "borrow s oa v u m a b c input ok")
  case (Inl e)
  then show ?thesis by blast
next
  case (Inr r)
  from borrow_success(1,3,4) [OF Inr] assms show ?thesis by blast
qed

text \<open>The checks of the ledger alone, for any verifier contract whatever.\<close>

lemma same_signals_other_caller_or_amount:
  assumes "verifyProofWithValidation v a b c input u m" and "(u', m') \<noteq> (u, m)"
  shows "\<not> verifyProofWithValidation v2 a2 b2 c2 input u' m'"
  using assms by (auto simp: verifyProofWithValidation_iff dest: address_to_uint256_inj)

lemma groth16_verify_binds:
  "groth16_verify issued a b c P \<Longrightarrow> P' \<noteq> P \<Longrightarrow> \<not> groth16_verify issued a b c P'"
  by (simp add: groth16_verify_def)

lemma sample_validation:
  "verifyProofWithValidation (groth16_verify sample_issued) (7, 8) ((1, 2), (3, 4)) (5, 6)
     [1, 50, 600000, 400000, 1] 1 50"
  by (simp add: verifyProofWithValidation_def groth16_verify_def sample_issued_def
        address_to_uint256_def)

lemma sample_verifyProof:
  "verifyProof (groth16_verify sample_issued) (7, 8) ((1, 2), (3, 4)) (5, 6)
     [1, 50, 600000, 400000, 1]"
  by (simp add: verifyProof_def groth16_verify_def sample_issued_def)

lemma sample_borrow:
  "borrow sample_position sample_oracle (groth16_verify sample_issued) 1 50
       (7, 8) ((1, 2), (3, 4)) (5, 6) [1, 50, 600000, 400000, 1] True
     = Inr (sample_position\<lparr>borrowBalance := (\<lambda>_. 0)(1 := 100050)\<rparr>,
            [Call_transfer StableToken 1 50, Emit_Borrow 1 50 (7, 8) ((1, 2), (3, 4)) (5, 6)])"
  by (simp add: borrow_def getMaxBorrowable_def ledger_eval groth16_verify_def
        sample_issued_def address_to_uint256_def)

lemma sample_replay_other_user:
  "borrow sample_position sample_oracle (groth16_verify sample_issued) 2 50
       (7, 8) ((1, 2), (3, 4)) (5, 6) [1, 50, 600000, 400000, 1] True
     = Inl (Revert ''User address mismatch'')"
  by (simp add: borrow_def getMaxBorrowable_def ledger_eval groth16_verify_def
        sample_issued_def address_to_uint256_def)

lemma sample_replay_relabelled:
  "borrow sample_position sample_oracle (groth16_verify sample_issued) 2 50
       (7, 8) ((1, 2), (3, 4)) (5, 6) [2, 50, 600000, 400000, 1] True
     = Inl (Revert ''Invalid ZK proof'')"
  by (simp add: borrow_def getMaxBorrowable_def ledger_eval groth16_verify_def
        sample_issued_def address_to_uint256_def)

lemma sample_altered_tail:
  "borrow sample_position sample_oracle (groth16_verify sample_issued) 1 50
       (7, 8) ((1, 2), (3, 4)) (5, 6) [1, 50, 0, 999999, 0] True
     = Inl (Revert ''Invalid ZK proof'')"
  by (simp add: borrow_def getMaxBorrowable_def ledger_eval groth16_verify_def
        sample_issued_def address_to_uint256_def)

text \<open>
  C3. Let the verifier be the Groth16 verifier of the specification, for any keys
  (\<open>issued\<close>), and let \<open>(a, b, c)\<close> be a proof that is valid for the public inputs \<open>P\<close>.
  \<^item> \<^verbatim>\<open>verifyProof\<close> of the adapter returns false for the proof with any public inputs
    \<open>P'\<close> other than \<open>P\<close>.
  \<^item> If \<^verbatim>\<open>verifyProofWithValidation\<close> accepts the proof with \<open>P\<close> for the user \<open>u\<close> and
    the amount \<open>m\<close>, it returns false for the proof with any other public inputs and
    for any other user or amount, whatever public inputs come with it.
  \<^item> If \<^verbatim>\<open>borrow\<close> succeeds with the proof and \<open>P\<close> for the caller \<open>u\<close> and the amount
    \<open>m\<close>, then \<^verbatim>\<open>borrow\<close> with the same proof fails, in every state of the ledger, when
    the public inputs differ from \<open>P\<close> or the caller or the amount differs: a proof
    cannot be replayed for another borrower or amount, with its own public inputs or
    with altered ones.
\<close>

theorem proof_bound_to_borrower_and_amount:
  "(verifyProof (groth16_verify issued) a b c P \<and> P' \<noteq> P
      \<longrightarrow> \<not> verifyProof (groth16_verify issued) a b c P')
 \<and> (verifyProofWithValidation (groth16_verify issued) a b c P u m
      \<and> (P' \<noteq> P \<or> (u', m') \<noteq> (u, m))
      \<longrightarrow> \<not> verifyProofWithValidation (groth16_verify issued) a b c P' u' m')
 \<and> (borrow s oa (groth16_verify issued) u m a b c P ok = Inr r
      \<and> (P' \<noteq> P \<or> (u', m') \<noteq> (u, m))
      \<longrightarrow> \<not> verifyProofWithValidation (groth16_verify issued) a b c P' u' m'
        \<and> (\<exists>e. borrow s2 oa2 (groth16_verify issued) u' m' a b c P' ok2 = Inl e))"
proof (intro conjI impI; elim conjE)
  assume "verifyProof (groth16_verify issued) a b c P" and "P' \<noteq> P"
  then show "\<not> verifyProof (groth16_verify issued) a b c P'"
    by (simp add: verifyProof_def groth16_verify_binds)
next
  assume ok: "verifyProofWithValidation (groth16_verify issued) a b c P u m"
    and ne: "P' \<noteq> P \<or> (u', m') \<noteq> (u, m)"
  show "\<not> verifyProofWithValidation (groth16_verify issued) a b c P' u' m'"
  proof (cases "P' = P")
    case True
    with ne have "(u', m') \<noteq> (u, m)" by simp
    from same_signals_other_caller_or_amount [OF ok this] True show ?thesis by simp
  next
    case False
    from ok have "groth16_verify issued a b c P"
      by (simp add: verifyProofWithValidation_iff)
    from groth16_verify_binds [OF this False] show ?thesis
      by (simp add: verifyProofWithValidation_iff)
  qed
next
  assume run: "borrow s oa (groth16_verify issued) u m a b c P ok = Inr r"
    and ne: "P' \<noteq> P \<or> (u', m') \<noteq> (u, m)"
  note bs = borrow_success [OF run]
  have refuse: "\<not> groth16_verify issued a b c P'
      \<or> P' ! 0 \<noteq> address_to_uint256 u' \<or> P' ! 1 \<noteq> m'"
  proof (cases "P' = P")
    case True
    with ne have "(u', m') \<noteq> (u, m)" by simp
    with bs(3,4) True show ?thesis by (auto dest: address_to_uint256_inj)
  next
    case False
    from groth16_verify_binds [OF bs(1) False] show ?thesis by simp
  qed
  then show "\<not> verifyProofWithValidation (groth16_verify issued) a b c P' u' m'"
    by (auto simp: verifyProofWithValidation_iff)
  from borrow_refused [of "groth16_verify issued" a b c P' u' m', OF refuse]
  show "\<exists>e. borrow s2 oa2 (groth16_verify issued) u' m' a b c P' ok2 = Inl e" .
qed

theorem proof_bound_to_borrower_and_amount_witness:
  "verifyProof (groth16_verify sample_issued) (7, 8) ((1, 2), (3, 4)) (5, 6)
     [1, 50, 600000, 400000, 1]
   \<and> \<not> verifyProof (groth16_verify sample_issued) (7, 8) ((1, 2), (3, 4)) (5, 6)
     [1, 50, 0, 999999, 0]
   \<and> verifyProofWithValidation (groth16_verify sample_issued) (7, 8) ((1, 2), (3, 4)) (5, 6)
     [1, 50, 600000, 400000, 1] 1 50
   \<and> \<not> verifyProofWithValidation (groth16_verify sample_issued) (7, 8) ((1, 2), (3, 4)) (5, 6)
     [2, 50, 600000, 400000, 1] 2 50
   \<and> borrow sample_position sample_oracle (groth16_verify sample_issued) 1 50
       (7, 8) ((1, 2), (3, 4)) (5, 6) [1, 50, 600000, 400000, 1] True
     = Inr (sample_position\<lparr>borrowBalance := (\<lambda>_. 0)(1 := 100050)\<rparr>,
            [Call_transfer StableToken 1 50, Emit_Borrow 1 50 (7, 8) ((1, 2), (3, 4)) (5, 6)])
   \<and> borrow sample_position sample_oracle (groth16_verify sample_issued) 2 50
       (7, 8) ((1, 2), (3, 4)) (5, 6) [2, 50, 600000, 400000, 1] True
     = Inl (Revert ''Invalid ZK proof'')
   \<and> borrow sample_position sample_oracle (groth16_verify sample_issued) 2 50
       (7, 8) ((1, 2), (3, 4)) (5, 6) [1, 50, 600000, 400000, 1] True
     = Inl (Revert ''User address mismatch'')"
proof -
  have tail: "[1, 50, 0, 999999, 0] \<noteq> [1, 50, 600000, 400000, 1::uint256]" by simp
  have relabel: "[2, 50, 600000, 400000, 1] \<noteq> [1, 50, 600000, 400000, 1::uint256]
      \<or> ((2::address), (50::uint256)) \<noteq> (1, 50)"
    by simp
  note altered = proof_bound_to_borrower_and_amount
         [of sample_issued "(7, 8)" "((1, 2), (3, 4))" "(5, 6)"
             "[1, 50, 600000, 400000, 1]" "[1, 50, 0, 999999, 0]" 1 50 1 50
             sample_position sample_oracle True
             "(sample_position\<lparr>borrowBalance := (\<lambda>_. 0)(1 := 100050)\<rparr>,
               [Call_transfer StableToken 1 50,
                Emit_Borrow 1 50 (7, 8) ((1, 2), (3, 4)) (5, 6)])"
             sample_position sample_oracle True]
  note replayed = proof_bound_to_borrower_and_amount
         [of sample_issued "(7, 8)" "((1, 2), (3, 4))" "(5, 6)"
             "[1, 50, 600000, 400000, 1]" "[2, 50, 600000, 400000, 1]" 1 50 2 50
             sample_position sample_oracle True
             "(sample_position\<lparr>borrowBalance := (\<lambda>_. 0)(1 := 100050)\<rparr>,
               [Call_transfer StableToken 1 50,
                Emit_Borrow 1 50 (7, 8) ((1, 2), (3, 4)) (5, 6)])"
             sample_position sample_oracle True]
  have c2: "\<not> verifyProof (groth16_verify sample_issued) (7, 8) ((1, 2), (3, 4)) (5, 6)
     [1, 50, 0, 999999, 0]"
    using altered [THEN conjunct1] sample_verifyProof tail by (rule mp [OF _ conjI])
  have c4: "\<not> verifyProofWithValidation (groth16_verify sample_issued) (7, 8)
     ((1, 2), (3, 4)) (5, 6) [2, 50, 600000, 400000, 1] 2 50"
    using replayed [THEN conjunct2, THEN conjunct2] sample_borrow relabel
    by (rule mp [OF _ conjI, THEN conjunct1])
  show ?thesis
    using sample_verifyProof c2 sample_validation c4 sample_borrow sample_replay_relabelled
      sample_replay_other_user
    by (intro conjI)
qed

section \<open>Properties of the circuit\<close>

subsection \<open>Division in the field\<close>

lemma inverse_steps_stop: "inverse_steps r0 0 t0 t1 = t0"
  by (simp add: inverse_steps.simps)

lemma inverse_steps_step:
  "r1 \<noteq> 0 \<Longrightarrow>
   inverse_steps r0 r1 t0 t1 = inverse_steps r1 (r0 mod r1) t1 (t0 - int (r0 div r1) * t1)"
  by (simp add: inverse_steps.simps [of r0 r1])

lemmas field_eval = field_prime_def field_mul_def field_div_def field_inv_def field_le_def
  signed_value_def inverse_steps_stop inverse_steps_step

text \<open>
  The coefficients of \<open>inverse_steps\<close> stay multiples of \<open>y\<close> modulo \<open>p\<close>, so its result
  times \<open>y\<close> is the greatest common divisor of the two starting remainders.
\<close>

lemma inverse_steps_bezout:
  assumes "(t0 * int y) mod int p = int r0 mod int p"
      and "(t1 * int y) mod int p = int r1 mod int p"
  shows "(inverse_steps r0 r1 t0 t1 * int y) mod int p = int (gcd r0 r1) mod int p"
  using assms
proof (induction r0 r1 t0 t1 rule: inverse_steps.induct)
  case (1 r0 r1 t0 t1)
  show ?case
  proof (cases "r1 = 0")
    case True
    then show ?thesis using "1.prems" by (simp add: inverse_steps.simps)
  next
    case False
    define q where "q = int (r0 div r1)"
    have "((t0 - q * t1) * int y) mod int p = (t0 * int y - q * (t1 * int y)) mod int p"
      by (simp add: algebra_simps)
    also have "\<dots> =
        ((t0 * int y) mod int p - (q * ((t1 * int y) mod int p)) mod int p) mod int p"
      by (simp add: mod_diff_eq mod_mult_right_eq)
    also have "\<dots> = (int r0 mod int p - (q * (int r1 mod int p)) mod int p) mod int p"
      using "1.prems" by simp
    also have "\<dots> = (int r0 - q * int r1) mod int p"
      by (simp add: mod_diff_eq mod_mult_right_eq)
    also have "int r0 - q * int r1 = int (r0 mod r1)"
      unfolding q_def
      by (simp add: of_nat_mod zmod_int minus_div_mult_eq_mod [symmetric] algebra_simps)
    finally have step:
      "((t0 - q * t1) * int y) mod int p = int (r0 mod r1) mod int p" .
    have "(inverse_steps r1 (r0 mod r1) t1 (t0 - q * t1) * int y) mod int p
        = int (gcd r1 (r0 mod r1)) mod int p"
      unfolding q_def using "1.IH" [OF False "1.prems"(2) step [unfolded q_def]] .
    moreover have "gcd r1 (r0 mod r1) = gcd r0 r1"
      by (simp add: gcd.commute [of r0 r1] gcd_red_nat [symmetric])
    ultimately show ?thesis
      using False by (simp add: inverse_steps.simps [of r0 r1] q_def)
  qed
qed

lemma field_prime_gt_1: "1 < field_prime"
  by (simp add: field_prime_def)

lemma field_inv_correct:
  assumes "coprime y field_prime"
  shows "field_mul (field_inv y) y = 1"
proof -
  let ?p = "field_prime"
  let ?y = "y mod ?p"
  let ?t = "inverse_steps ?p ?y 0 1"
  have pos: "0 < int ?p" using field_prime_gt_1 by simp
  have "gcd ?p ?y = gcd y ?p"
    by (metis gcd.commute gcd_red_nat)
  with assms have g: "gcd ?p ?y = 1"
    by (simp add: coprime_iff_gcd_eq_1)
  have "(?t * int ?y) mod int ?p = int (gcd ?p ?y) mod int ?p"
    by (rule inverse_steps_bezout) simp_all
  with g field_prime_gt_1 have b: "(?t * int ?y) mod int ?p = 1" by simp
  have "int (field_mul (field_inv y) y) = (int (field_inv y) * int y) mod int ?p"
    by (simp add: field_mul_def zmod_int)
  also have "int (field_inv y) = ?t mod int ?p"
    using pos by (simp add: field_inv_def)
  also have "((?t mod int ?p) * int y) mod int ?p = (?t * (int y mod int ?p)) mod int ?p"
    by (simp add: mod_mult_left_eq mod_mult_right_eq)
  also have "int y mod int ?p = int ?y" by (simp add: zmod_int)
  finally show ?thesis using b by simp
qed

text \<open>\<open>field_div x y\<close> is the element whose product with \<open>y\<close> is \<open>x\<close>.\<close>

lemma field_div_correct:
  assumes "coprime y field_prime"
  shows "field_mul (field_div x y) y = x mod field_prime"
proof -
  have "field_mul (field_div x y) y = (x * field_mul (field_inv y) y) mod field_prime"
    by (simp add: field_mul_def field_div_def mod_mult_left_eq mod_mult_right_eq mult.assoc)
  then show ?thesis by (simp add: field_inv_correct [OF assms])
qed

subsection \<open>The template does not compile\<close>

text \<open>
  The compiler refuses the template on eight counts: the keyword \<^verbatim>\<open>private\<close> in the five
  input declarations, the expression used as a statement on line 114, and the two
  constraints that are not quadratic, the quotient by a signal on line 99 and the
  comparison on line 103. So there is no constraint system and no witness generator,
  and witness generation and proof generation fail for every input.
\<close>

lemma diagnostics_CollateralCheck:
  "diagnostics CollateralCheck =
     [PrivateKeyword 75, PrivateKeyword 76, PrivateKeyword 77, PrivateKeyword 78,
      PrivateKeyword 79, NotAStatement 114, NonQuadratic 99, NonQuadratic 103]"
  by (simp add: diagnostics_def CollateralCheck_def)

lemma circom_CollateralCheck: "circom CollateralCheck = None"
  by (simp add: circom_def diagnostics_CollateralCheck)

lemma generate_witness_CollateralCheck:
  "generate_witness CollateralCheck i = Inl CompileError"
  by (simp add: generate_witness_def circom_CollateralCheck)

lemma generateProof_CollateralCheck:
  "generateProof prove CollateralCheck i = Inl CompileError"
  by (simp add: generateProof_def generate_witness_CollateralCheck)






text \<open>
  C4, at the request of 50000 in the scenario, for which
  \<open>borrowAmount * ratio \<le> collateralAmount * price * 100\<close>. Witness generation fails,
  because the template does not compile; with any prover and any verifier, proof
  generation returns no proof, so none that verifies.
\<close>

theorem solvent_request_gets_no_proof:
  "scenario 1 50000 borrowAmount * scenario 1 50000 collateralizationRatio_in
     \<le> scenario 1 50000 userCollateralAmount * scenario 1 50000 collateralPrice * 100
   \<and> generate_witness CollateralCheck (scenario 1 50000) = Inl CompileError
   \<and> (\<forall>w. generate_witness CollateralCheck (scenario 1 50000) \<noteq> Inr w)
   \<and> \<not> (\<exists>pf ps. generateProof prove CollateralCheck (scenario 1 50000) = Inr (pf, ps)
                \<and> verify pf ps)"
  by (simp add: generate_witness_CollateralCheck generateProof_CollateralCheck scenario_def)

text \<open>
  C5, the scenario of the specification. No public output \<open>maxBorrowable\<close> is computed
  for it: proof generation fails for the request of 50000 as it does for the request of
  150000, both times in the compiler and not with \<open>UnsatisfiableWitness\<close>.
\<close>

theorem scenario_outcome:
  "generateProof prove CollateralCheck (scenario 1 50000) = Inl CompileError
   \<and> generateProof prove CollateralCheck (scenario 1 150000) = Inl CompileError
   \<and> generateProof prove CollateralCheck (scenario 1 150000) \<noteq> Inl UnsatisfiableWitness
   \<and> (100 * 2000 * 100) div 150 = (133333::nat)"
  by (simp add: generateProof_CollateralCheck)

subsection \<open>The outputs named as hashes\<close>

lemma public_signals_CollateralCheck:
  "public_signals CollateralCheck w =
     [w userAddressHash, w borrowAmountHash, w collateralValue, w maxBorrowable, w canBorrow]"
  by (simp add: public_signals_def CollateralCheck_def)

lemma load_CollateralCheck_inputs:
  "load CollateralCheck i userAddress = i userAddress mod field_prime"
  "load CollateralCheck i borrowAmount = i borrowAmount mod field_prime"
  by (simp_all add: load_def CollateralCheck_def)

lemma address_below_field_prime: "a < 2 ^ 160 \<Longrightarrow> a mod field_prime = (a::nat)"
  by (simp add: field_prime_def)

text \<open>
  C6, as the code has it. Each of the outputs \<open>userAddressHash\<close> and
  \<open>borrowAmountHash\<close> is defined once, by the input itself (\<^verbatim>\<open>output <== input\<close>), and
  no hash is applied. The constraint of such a statement is the equality of the output
  with the input: in every assignment that satisfies the two constraints and holds the
  inputs as they are loaded, the first two public signals are the address and the
  amount, reduced modulo the prime of the field; an address, of 160 bits, is below the
  prime and appears as it is.
\<close>

theorem hash_outputs_are_pass_through:
  "definitions_of userAddressHash CollateralCheck = [(108, Sig userAddress)]
   \<and> definitions_of borrowAmountHash CollateralCheck = [(111, Sig borrowAmount)]
   \<and> (satisfies w (userAddressHash, Sig userAddress)
        \<and> satisfies w (borrowAmountHash, Sig borrowAmount)
        \<and> w userAddress = load CollateralCheck i userAddress
        \<and> w borrowAmount = load CollateralCheck i borrowAmount
      \<longrightarrow> public_signals CollateralCheck w ! 0 = i userAddress mod field_prime
        \<and> public_signals CollateralCheck w ! 1 = i borrowAmount mod field_prime)
   \<and> (i userAddress < 2 ^ 160 \<longrightarrow> i userAddress mod field_prime = i userAddress)"
proof (intro conjI impI)
  show "definitions_of userAddressHash CollateralCheck = [(108, Sig userAddress)]"
    by (simp add: definitions_of_def CollateralCheck_def)
  show "definitions_of borrowAmountHash CollateralCheck = [(111, Sig borrowAmount)]"
    by (simp add: definitions_of_def CollateralCheck_def)
next
  assume a: "satisfies w (userAddressHash, Sig userAddress)
        \<and> satisfies w (borrowAmountHash, Sig borrowAmount)
        \<and> w userAddress = load CollateralCheck i userAddress
        \<and> w borrowAmount = load CollateralCheck i borrowAmount"
  then show "public_signals CollateralCheck w ! 0 = i userAddress mod field_prime"
    by (simp add: satisfies_def public_signals_CollateralCheck load_CollateralCheck_inputs)
  from a show "public_signals CollateralCheck w ! 1 = i borrowAmount mod field_prime"
    by (simp add: satisfies_def public_signals_CollateralCheck load_CollateralCheck_inputs)
next
  assume "i userAddress < 2 ^ 160"
  then show "i userAddress mod field_prime = i userAddress"
    by (rule address_below_field_prime)
qed

lemma disclosed_satisfies:
  "satisfies (disclosed user amount) (userAddressHash, Sig userAddress)"
  "satisfies (disclosed user amount) (borrowAmountHash, Sig borrowAmount)"
  by (simp_all add: satisfies_def disclosed_def)

lemma disclosed_loaded:
  "user < 2 ^ 160 \<Longrightarrow> amount < 2 ^ 160 \<Longrightarrow>
   disclosed user amount userAddress = load CollateralCheck (scenario user amount) userAddress
   \<and> disclosed user amount borrowAmount
       = load CollateralCheck (scenario user amount) borrowAmount"
  by (simp add: disclosed_def load_CollateralCheck_inputs scenario_def
        address_below_field_prime)

theorem hash_outputs_are_pass_through_witness:
  "satisfies (disclosed 1234567890123456789012345678901234567890 50000) (userAddressHash, Sig userAddress)
   \<and> satisfies (disclosed 1234567890123456789012345678901234567890 50000) (borrowAmountHash, Sig borrowAmount)
   \<and> scenario 1234567890123456789012345678901234567890 50000 userAddress < 2 ^ 160
   \<and> public_signals CollateralCheck (disclosed 1234567890123456789012345678901234567890 50000) ! 0 = 1234567890123456789012345678901234567890
   \<and> public_signals CollateralCheck (disclosed 1234567890123456789012345678901234567890 50000) ! 1 = 50000"
proof -
  have small: "scenario 1234567890123456789012345678901234567890 50000 userAddress < 2 ^ 160"
    by (simp add: scenario_def)
  have loaded:
    "disclosed 1234567890123456789012345678901234567890 50000 userAddress
       = load CollateralCheck (scenario 1234567890123456789012345678901234567890 50000) userAddress
     \<and> disclosed 1234567890123456789012345678901234567890 50000 borrowAmount
       = load CollateralCheck (scenario 1234567890123456789012345678901234567890 50000) borrowAmount"
    by (rule disclosed_loaded) simp_all
  note t = hash_outputs_are_pass_through [of "disclosed 1234567890123456789012345678901234567890 50000" "scenario 1234567890123456789012345678901234567890 50000"]
  have hyp: "satisfies (disclosed 1234567890123456789012345678901234567890 50000) (userAddressHash, Sig userAddress)
        \<and> satisfies (disclosed 1234567890123456789012345678901234567890 50000) (borrowAmountHash, Sig borrowAmount)
        \<and> disclosed 1234567890123456789012345678901234567890 50000 userAddress
            = load CollateralCheck (scenario 1234567890123456789012345678901234567890 50000) userAddress
        \<and> disclosed 1234567890123456789012345678901234567890 50000 borrowAmount
            = load CollateralCheck (scenario 1234567890123456789012345678901234567890 50000) borrowAmount"
    using disclosed_satisfies loaded by blast
  from t [THEN conjunct2, THEN conjunct2, THEN conjunct1, THEN mp, OF hyp]
  have sig: "public_signals CollateralCheck (disclosed 1234567890123456789012345678901234567890 50000) ! 0
        = scenario 1234567890123456789012345678901234567890 50000 userAddress mod field_prime
      \<and> public_signals CollateralCheck (disclosed 1234567890123456789012345678901234567890 50000) ! 1
        = scenario 1234567890123456789012345678901234567890 50000 borrowAmount mod field_prime" .
  from t [THEN conjunct2, THEN conjunct2, THEN conjunct2, THEN mp, OF small]
  have red: "scenario 1234567890123456789012345678901234567890 50000 userAddress mod field_prime
      = scenario 1234567890123456789012345678901234567890 50000 userAddress" .
  have s0: "public_signals CollateralCheck (disclosed 1234567890123456789012345678901234567890 50000) ! 0 = 1234567890123456789012345678901234567890"
    using sig red by (simp add: scenario_def)
  have s1: "public_signals CollateralCheck (disclosed 1234567890123456789012345678901234567890 50000) ! 1 = 50000"
    using sig by (simp add: scenario_def field_prime_def)
  show ?thesis
    by (intro conjI disclosed_satisfies small s0 s1)
qed

text \<open>
  The claim as it was stated, that a hash keeps the address out of the public outputs,
  fails: the output is defined by the input and nothing else, and of two assignments
  that differ in the address only each satisfies the constraint of the output and
  shows its address as the first public signal, while an output with any other value
  breaks the constraint.
\<close>

theorem address_in_the_clear_counterexample:
  "definitions_of userAddressHash CollateralCheck = [(108, Sig userAddress)]
   \<and> satisfies (disclosed 1234567890123456789012345678901234567890 50000) (userAddressHash, Sig userAddress)
   \<and> public_signals CollateralCheck (disclosed 1234567890123456789012345678901234567890 50000) ! 0 = 1234567890123456789012345678901234567890
   \<and> satisfies (disclosed 1234567890123456789012345678901234567891 50000) (userAddressHash, Sig userAddress)
   \<and> public_signals CollateralCheck (disclosed 1234567890123456789012345678901234567891 50000) ! 0 = 1234567890123456789012345678901234567891
   \<and> \<not> satisfies ((disclosed 1234567890123456789012345678901234567890 50000)(userAddressHash := 77))
         (userAddressHash, Sig userAddress)"
  by (simp add: satisfies_def disclosed_def public_signals_CollateralCheck
        definitions_of_def)
     (simp add: CollateralCheck_def)

end
